theory Spec2Isabelle
  imports Complex_Main "HOL-Library.Multiset"
begin

section \<open>Voxelisation of a protein (labs/L6-protein-deep-learning/laboratory.ipynb)\<close>

text \<open>
  The notebook turns the atoms of a molecule into a 4-dimensional occupancy grid:
  \<^verbatim>\<open>
  symbols = ['C', 'N', 'O', 'S']
  pos = mol.GetConformer().GetPositions()
  bounding_box  = np.floor(pos.min(axis=0)), np.ceil(pos.max(axis=0))
  box_size = (bounding_box[1] - bounding_box[0]).astype(int)
  grid = np.zeros([*box_size, 4])
  for i, atom in enumerate(mol.GetAtoms()):
      symbol = atom.GetSymbol()
      position = np.floor(pos[i] - bounding_box[0]).astype(int)
      grid[position[0], position[1], position[2], symbols.index(symbol)] = 1.
  \<close>
  Coordinates and grid values are finite binary64 numbers in the notebook and real numbers
  here. Minimum, maximum, floor and ceiling of finite binary64 numbers are exact, so they
  are the operations on reals. Subtraction rounds and allocation can fail; both belong to
  the machine and are parameters of the model (\<open>platform\<close>). The conversion to \<open>int\<close> is the
  64-bit one. Infinities and NaN are outside the model.
\<close>

subsection \<open>Data\<close>

type_synonym vec3 = "real \<times> real \<times> real"
type_synonym ivec3 = "int \<times> int \<times> int"

text \<open>An atom of the molecule: row \<open>pos[i]\<close> of the conformer and \<open>atom.GetSymbol()\<close>.\<close>

record atom =
  GetPosition :: vec3
  GetSymbol :: string

text \<open>The exceptions the cells can raise.\<close>

datatype error =
    ValueError_zero_size_array      \<comment> \<open>\<open>min\<close>/\<open>max\<close> of an array with no rows\<close>
  | ValueError_dimensions           \<comment> \<open>\<open>np.zeros\<close>: negative dimensions, or array is too big\<close>
  | MemoryError                     \<comment> \<open>\<open>np.zeros\<close>: unable to allocate\<close>
  | ValueError_not_in_list string   \<comment> \<open>\<open>list.index\<close>: "'P' is not in list"\<close>
  | IndexError                      \<comment> \<open>index out of bounds for an axis\<close>

text \<open>
  A 4-dimensional array: its shape and its cells in row-major (C) order, as numpy stores
  what \<open>np.zeros\<close> returns.
\<close>

record ndarray =
  shape :: "nat \<times> nat \<times> nat \<times> nat"
  data :: "real list"

text \<open>
  What the machine contributes: \<open>fsub x y\<close> is the binary64 difference of \<open>x\<close> and \<open>y\<close>
  (the exact difference rounded to binary64), and \<open>can_alloc n\<close> tells whether the
  allocator hands out a zeroed buffer for an array of \<open>n\<close> cells of eight bytes.
\<close>

record platform =
  fsub :: "real \<Rightarrow> real \<Rightarrow> real"
  can_alloc :: "nat \<Rightarrow> bool"

definition symbols :: "string list" where
  "symbols = [''C'', ''N'', ''O'', ''S'']"

subsection \<open>The library operations the cells use\<close>

text \<open>Sequencing of steps that may raise: the first exception ends the computation.\<close>

definition bind_err :: "error + 'a \<Rightarrow> ('a \<Rightarrow> error + 'b) \<Rightarrow> error + 'b" where
  "bind_err r f = (case r of Inl e \<Rightarrow> Inl e | Inr x \<Rightarrow> f x)"

definition X :: "vec3 \<Rightarrow> real" where "X v = fst v"
definition Y :: "vec3 \<Rightarrow> real" where "Y v = fst (snd v)"
definition Z :: "vec3 \<Rightarrow> real" where "Z v = snd (snd v)"

text \<open>\<open>pos.min(axis=0)\<close> and \<open>pos.max(axis=0)\<close>: a reduction over the rows, which raises
  on an array without rows.\<close>

fun pos_min :: "vec3 list \<Rightarrow> error + vec3" where
  "pos_min [] = Inl ValueError_zero_size_array"
| "pos_min (p # ps) =
     Inr (fold min (map X ps) (X p), fold min (map Y ps) (Y p), fold min (map Z ps) (Z p))"

fun pos_max :: "vec3 list \<Rightarrow> error + vec3" where
  "pos_max [] = Inl ValueError_zero_size_array"
| "pos_max (p # ps) =
     Inr (fold max (map X ps) (X p), fold max (map Y ps) (Y p), fold max (map Z ps) (Z p))"

text \<open>\<open>np.floor\<close> and \<open>np.ceil\<close> return floating-point arrays.\<close>

definition np_floor :: "vec3 \<Rightarrow> vec3" where
  "np_floor v = (real_of_int \<lfloor>X v\<rfloor>, real_of_int \<lfloor>Y v\<rfloor>, real_of_int \<lfloor>Z v\<rfloor>)"

definition np_ceil :: "vec3 \<Rightarrow> vec3" where
  "np_ceil v = (real_of_int \<lceil>X v\<rceil>, real_of_int \<lceil>Y v\<rceil>, real_of_int \<lceil>Z v\<rceil>)"

text \<open>The difference of two floating-point arrays, element by element.\<close>

definition vsub :: "platform \<Rightarrow> vec3 \<Rightarrow> vec3 \<Rightarrow> vec3" where
  "vsub M a b = (fsub M (X a) (X b), fsub M (Y a) (Y b), fsub M (Z a) (Z b))"

text \<open>
  \<open>.astype(int)\<close> converts a binary64 number to a signed 64-bit integer: the number is
  truncated towards zero, and a number whose truncation does not fit yields \<open>-2^63\<close> (the
  result of the conversion instruction of x86-64).
\<close>

definition trunc :: "real \<Rightarrow> int" where
  "trunc x = (if 0 \<le> x then \<lfloor>x\<rfloor> else \<lceil>x\<rceil>)"

definition astype_int64 :: "real \<Rightarrow> int" where
  "astype_int64 x =
     (let t = trunc x in if - (2 ^ 63) \<le> t \<and> t < 2 ^ 63 then t else - (2 ^ 63))"

definition astype_int :: "vec3 \<Rightarrow> ivec3" where
  "astype_int v = (astype_int64 (X v), astype_int64 (Y v), astype_int64 (Z v))"

text \<open>
  numpy sizes an array by multiplying the item size (eight bytes) by the dimensions that
  are not zero, and refuses the shape when that product does not fit a signed 64-bit
  integer.
\<close>

definition size_ok :: "nat \<times> nat \<times> nat \<times> nat \<Rightarrow> bool" where
  "size_ok sh =
     (case sh of (n0, n1, n2, n3) \<Rightarrow>
        8 * prod_list (filter (\<lambda>d. d \<noteq> 0) [int n0, int n1, int n2, int n3]) < 2 ^ 63)"

text \<open>\<open>np.zeros(dims)\<close>: a negative dimension or a shape that is too big raises
  \<open>ValueError\<close>, a failed allocation raises \<open>MemoryError\<close>.\<close>

definition np_zeros :: "platform \<Rightarrow> int \<times> int \<times> int \<times> int \<Rightarrow> error + ndarray" where
  "np_zeros M dims =
     (case dims of (d0, d1, d2, d3) \<Rightarrow>
        if d0 < 0 \<or> d1 < 0 \<or> d2 < 0 \<or> d3 < 0 then Inl ValueError_dimensions
        else if \<not> size_ok (nat d0, nat d1, nat d2, nat d3) then Inl ValueError_dimensions
        else if \<not> can_alloc M (nat d0 * nat d1 * nat d2 * nat d3) then Inl MemoryError
        else Inr \<lparr>shape = (nat d0, nat d1, nat d2, nat d3),
                 data = replicate (nat d0 * nat d1 * nat d2 * nat d3) 0\<rparr>)"

text \<open>An integer index on an axis of length \<open>n\<close>: a negative index counts from the end, and
  an index outside \<open>[-n, n)\<close> raises.\<close>

definition norm_index :: "nat \<Rightarrow> int \<Rightarrow> error + nat" where
  "norm_index n i =
     (let j = (if i < 0 then i + int n else i)
      in if 0 \<le> j \<and> j < int n then Inr (nat j) else Inl IndexError)"

text \<open>The place of cell \<open>(i, j, k, c)\<close> in the row-major buffer.\<close>

definition offset :: "nat \<times> nat \<times> nat \<times> nat \<Rightarrow> nat \<times> nat \<times> nat \<times> nat \<Rightarrow> nat" where
  "offset sh cell =
     (case sh of (n0, n1, n2, n3) \<Rightarrow>
      case cell of (i, j, k, c) \<Rightarrow> ((i * n1 + j) * n2 + k) * n3 + c)"

definition locate :: "nat \<times> nat \<times> nat \<times> nat \<Rightarrow> int \<times> int \<times> int \<times> int
    \<Rightarrow> error + nat \<times> nat \<times> nat \<times> nat" where
  "locate sh idx =
     (case sh of (n0, n1, n2, n3) \<Rightarrow>
      case idx of (i, j, k, c) \<Rightarrow>
        bind_err (norm_index n0 i) (\<lambda>i'.
        bind_err (norm_index n1 j) (\<lambda>j'.
        bind_err (norm_index n2 k) (\<lambda>k'.
        bind_err (norm_index n3 c) (\<lambda>c'. Inr (i', j', k', c'))))))"

text \<open>\<open>grid[i, j, k, c]\<close> and \<open>grid[i, j, k, c] = v\<close>.\<close>

definition getitem :: "ndarray \<Rightarrow> int \<times> int \<times> int \<times> int \<Rightarrow> error + real" where
  "getitem a idx =
     bind_err (locate (shape a) idx) (\<lambda>cell. Inr (data a ! offset (shape a) cell))"

definition setitem :: "ndarray \<Rightarrow> int \<times> int \<times> int \<times> int \<Rightarrow> real \<Rightarrow> error + ndarray" where
  "setitem a idx v =
     bind_err (locate (shape a) idx)
       (\<lambda>cell. Inr (a\<lparr>data := (data a)[offset (shape a) cell := v]\<rparr>))"

text \<open>\<open>symbols.index(symbol)\<close>: the first position of the symbol, or a \<open>ValueError\<close>
  naming it.\<close>

fun list_index :: "string list \<Rightarrow> string \<Rightarrow> error + nat" where
  "list_index [] s = Inl (ValueError_not_in_list s)"
| "list_index (x # xs) s =
     (if x = s then Inr 0 else bind_err (list_index xs s) (\<lambda>n. Inr (Suc n)))"

subsection \<open>The cells of the notebook\<close>

text \<open>\<open>bounding_box = np.floor(pos.min(axis=0)), np.ceil(pos.max(axis=0))\<close>\<close>

definition bounding_box :: "vec3 list \<Rightarrow> error + vec3 \<times> vec3" where
  "bounding_box pos =
     bind_err (pos_min pos) (\<lambda>lo.
     bind_err (pos_max pos) (\<lambda>hi. Inr (np_floor lo, np_ceil hi)))"

text \<open>\<open>box_size = (bounding_box[1] - bounding_box[0]).astype(int)\<close>\<close>

definition box_size :: "platform \<Rightarrow> vec3 \<times> vec3 \<Rightarrow> ivec3" where
  "box_size M bb = astype_int (vsub M (snd bb) (fst bb))"

text \<open>\<open>grid = np.zeros([*box_size, 4])\<close>\<close>

definition zero_grid :: "platform \<Rightarrow> ivec3 \<Rightarrow> error + ndarray" where
  "zero_grid M bs = (case bs of (b0, b1, b2) \<Rightarrow> np_zeros M (b0, b1, b2, 4))"

text \<open>The voxel index of a position: \<open>np.floor(pos[i] - bounding_box[0]).astype(int)\<close>.\<close>

definition voxel_index :: "platform \<Rightarrow> vec3 \<times> vec3 \<Rightarrow> vec3 \<Rightarrow> ivec3" where
  "voxel_index M bb p = astype_int (np_floor (vsub M p (fst bb)))"

text \<open>One pass of the loop body. The subscript is evaluated before the store, so an
  unknown symbol raises before the grid is indexed.\<close>

definition loop_body :: "platform \<Rightarrow> vec3 \<times> vec3 \<Rightarrow> ndarray \<Rightarrow> atom \<Rightarrow> error + ndarray" where
  "loop_body M bb grid a =
     (let symbol = GetSymbol a;
          position = voxel_index M bb (GetPosition a)
      in bind_err (list_index symbols symbol) (\<lambda>ch.
           case position of (p0, p1, p2) \<Rightarrow> setitem grid (p0, p1, p2, int ch) 1))"

text \<open>The loop over the atoms, which stops at the first exception.\<close>

fun rasterize :: "platform \<Rightarrow> vec3 \<times> vec3 \<Rightarrow> ndarray \<Rightarrow> atom list \<Rightarrow> error + ndarray" where
  "rasterize M bb grid [] = Inr grid"
| "rasterize M bb grid (a # as) =
     bind_err (loop_body M bb grid a) (\<lambda>grid'. rasterize M bb grid' as)"

text \<open>The cells in sequence, from the atoms of the molecule to the final grid.\<close>

definition voxelize :: "platform \<Rightarrow> atom list \<Rightarrow> error + ndarray" where
  "voxelize M mol =
     (let pos = map GetPosition mol
      in bind_err (bounding_box pos) (\<lambda>bb.
         bind_err (zero_grid M (box_size M bb)) (\<lambda>grid. rasterize M bb grid mol)))"

subsection \<open>Notions used to state the properties\<close>

text \<open>The number of cells of an array of a given shape, and the cells inside it.\<close>

definition cell_count :: "nat \<times> nat \<times> nat \<times> nat \<Rightarrow> nat" where
  "cell_count sh = (case sh of (n0, n1, n2, n3) \<Rightarrow> n0 * n1 * n2 * n3)"

definition in_bounds :: "nat \<times> nat \<times> nat \<times> nat \<Rightarrow> nat \<times> nat \<times> nat \<times> nat \<Rightarrow> bool" where
  "in_bounds sh cell =
     (case sh of (n0, n1, n2, n3) \<Rightarrow>
      case cell of (i, j, k, c) \<Rightarrow> i < n0 \<and> j < n1 \<and> k < n2 \<and> c < n3)"



text \<open>An array is well formed when its buffer holds one value per cell and its shape
  passes numpy's size check; every array numpy builds is.\<close>

definition well_formed :: "ndarray \<Rightarrow> bool" where
  "well_formed a = (length (data a) = cell_count (shape a) \<and> size_ok (shape a))"

text \<open>The cell the loop body stores to for an atom, or the exception it raises: the
  subscript of the assignment, evaluated on an array of shape \<open>sh\<close>.\<close>

definition target :: "platform \<Rightarrow> nat \<times> nat \<times> nat \<times> nat \<Rightarrow> vec3 \<times> vec3 \<Rightarrow> atom
    \<Rightarrow> error + nat \<times> nat \<times> nat \<times> nat" where
  "target M sh bb a =
     bind_err (list_index symbols (GetSymbol a)) (\<lambda>ch.
       case voxel_index M bb (GetPosition a) of (p0, p1, p2) \<Rightarrow> locate sh (p0, p1, p2, int ch))"

text \<open>All cells hold 0 or 1.\<close>

definition binary :: "ndarray \<Rightarrow> bool" where
  "binary a = list_all (\<lambda>v. v = 0 \<or> v = 1) (data a)"

text \<open>
  A property of binary64 subtraction: integers up to \<open>2^53\<close> in magnitude are binary64
  numbers, so the difference of two of them is exact when it is such an integer too.
\<close>

definition exact_on_integers :: "platform \<Rightarrow> bool" where
  "exact_on_integers M =
     (\<forall>a b :: int. \<bar>a\<bar> \<le> 2 ^ 53 \<and> \<bar>b\<bar> \<le> 2 ^ 53 \<and> \<bar>a - b\<bar> \<le> 2 ^ 53 \<longrightarrow>
        fsub M (real_of_int a) (real_of_int b) = real_of_int (a - b))"

text \<open>
  Two machines for evaluating the notebook on given molecules. On the first, subtraction
  is exact and allocation never fails: it computes what binary64 computes wherever every
  difference taken is a binary64 number (as \<open>x - 0\<close> always is, and a difference of
  small integers). The second one also rounds the differences that lie strictly between
  \<open>1 - 2^-54\<close> and \<open>1\<close> up to \<open>1\<close>, as binary64 does: the largest binary64 number below \<open>1\<close>
  is \<open>1 - 2^-53\<close>.
\<close>

definition reference_platform :: platform where
  "reference_platform = \<lparr>fsub = (\<lambda>x y. x - y), can_alloc = (\<lambda>n. True)\<rparr>"


text \<open>The molecule of the specification's scenario, and a molecule with an atom on an
  integral maximum.\<close>

definition scenario_mol :: "atom list" where
  "scenario_mol =
     [\<lparr>GetPosition = (0.2, 0.3, 0.1), GetSymbol = ''C''\<rparr>,
      \<lparr>GetPosition = (1.8, 1.1, 0.9), GetSymbol = ''N''\<rparr>]"

definition edge_mol :: "atom list" where
  "edge_mol =
     [\<lparr>GetPosition = (0.5, 0.5, 0.5), GetSymbol = ''C''\<rparr>,
      \<lparr>GetPosition = (2, 1.5, 1.5), GetSymbol = ''N''\<rparr>]"

section \<open>Auxiliary facts\<close>

subsection \<open>Exceptions, rounding and reductions\<close>

lemma bind_err_simps [simp]:
  "bind_err (Inl e) f = Inl e"
  "bind_err (Inr x) f = f x"
  by (simp_all add: bind_err_def)

lemma bind_err_eq_Inr: "bind_err r f = Inr y \<longleftrightarrow> (\<exists>x. r = Inr x \<and> f x = Inr y)"
  by (cases r) simp_all

lemma bind_err_eq_Inl: "bind_err r f = Inl e \<longleftrightarrow> r = Inl e \<or> (\<exists>x. r = Inr x \<and> f x = Inl e)"
  by (cases r) simp_all

lemma trunc_of_int [simp]: "trunc (real_of_int n) = n"
  by (simp add: trunc_def)

lemma fold_min_Min: "fold min (map f ps) (f p) = Min (f ` set (p # ps))"
proof -
  have "Min (set (f p # map f ps)) = fold min (map f ps) (f p)"
    by (rule Min.set_eq_fold)
  then show ?thesis by simp
qed

lemma fold_max_Max: "fold max (map f ps) (f p) = Max (f ` set (p # ps))"
proof -
  have "Max (set (f p # map f ps)) = fold max (map f ps) (f p)"
    by (rule Max.set_eq_fold)
  then show ?thesis by simp
qed

lemma pos_min_Min:
  "pos \<noteq> [] \<Longrightarrow> pos_min pos = Inr (Min (X ` set pos), Min (Y ` set pos), Min (Z ` set pos))"
proof (cases pos)
  case Nil
  assume "pos \<noteq> []"
  with Nil show ?thesis by simp
next
  case (Cons p ps)
  show ?thesis unfolding Cons pos_min.simps fold_min_Min ..
qed

lemma pos_max_Max:
  "pos \<noteq> [] \<Longrightarrow> pos_max pos = Inr (Max (X ` set pos), Max (Y ` set pos), Max (Z ` set pos))"
proof (cases pos)
  case Nil
  assume "pos \<noteq> []"
  with Nil show ?thesis by simp
next
  case (Cons p ps)
  show ?thesis unfolding Cons pos_max.simps fold_max_Max ..
qed

lemma bounding_box_nonempty:
  "pos \<noteq> [] \<Longrightarrow> bounding_box pos =
     Inr (np_floor (Min (X ` set pos), Min (Y ` set pos), Min (Z ` set pos)),
          np_ceil (Max (X ` set pos), Max (Y ` set pos), Max (Z ` set pos)))"
  by (simp add: bounding_box_def pos_min_Min pos_max_Max)

lemma bounding_box_Nil: "bounding_box [] = Inl ValueError_zero_size_array"
  by (simp add: bounding_box_def)

lemma mixed_radix_less: "a < m \<Longrightarrow> b < n \<Longrightarrow> a * n + b < m * (n::nat)"
proof -
  assume a: "a < m" and b: "b < n"
  have "a * n + b < a * n + n" using b by simp
  also have "\<dots> = Suc a * n" by simp
  also have "\<dots> \<le> m * n" using a by (intro mult_le_mono1) simp
  finally show ?thesis .
qed


lemma offset_less:
  "in_bounds sh cell \<Longrightarrow> offset sh cell < cell_count sh"
  apply (cases sh; cases cell)
  apply (simp add: in_bounds_def offset_def cell_count_def)
  apply (intro mixed_radix_less)
  apply simp_all
  done


lemma norm_index_less: "norm_index n i = Inr j \<Longrightarrow> j < n"
  by (auto simp: norm_index_def Let_def split: if_splits)

lemma norm_index_error: "norm_index n i = Inl e \<Longrightarrow> e = IndexError"
  by (auto simp: norm_index_def Let_def split: if_splits)


lemma norm_index_int [simp]:
  "norm_index n (int i) = (if i < n then Inr i else Inl IndexError)"
  by (simp add: norm_index_def)

lemma locate_in_bounds: "locate sh idx = Inr cell \<Longrightarrow> in_bounds sh cell"
  by (cases sh; cases idx; cases cell)
     (auto simp: locate_def in_bounds_def bind_err_eq_Inr dest: norm_index_less)

lemma locate_error: "locate sh idx = Inl e \<Longrightarrow> e = IndexError"
  by (cases sh; cases idx)
     (auto simp: locate_def bind_err_eq_Inl dest: norm_index_error)

lemma locate_int:
  "in_bounds sh (i, j, k, c) \<Longrightarrow> locate sh (int i, int j, int k, int c) = Inr (i, j, k, c)"
  by (cases sh) (simp add: locate_def in_bounds_def)



lemma list_index_member: "s \<in> set xs \<Longrightarrow> \<exists>n. list_index xs s = Inr n"
  by (induction xs) (auto simp: bind_err_eq_Inr)

lemma list_index_missing: "s \<notin> set xs \<Longrightarrow> list_index xs s = Inl (ValueError_not_in_list s)"
  by (induction xs) auto

lemma list_index_error:
  "list_index xs s = Inl e \<Longrightarrow> e = ValueError_not_in_list s \<and> s \<notin> set xs"
  by (induction xs) (auto simp: bind_err_eq_Inl split: if_splits)

lemma loop_body_target:
  "loop_body M bb g a =
     bind_err (target M (shape g) bb a)
       (\<lambda>cell. Inr (g\<lparr>data := (data g)[offset (shape g) cell := 1]\<rparr>))"
  by (cases "list_index symbols (GetSymbol a)"; cases "voxel_index M bb (GetPosition a)")
     (simp_all add: loop_body_def target_def setitem_def Let_def)

lemma target_in_bounds: "target M sh bb a = Inr cell \<Longrightarrow> in_bounds sh cell"
  by (cases "voxel_index M bb (GetPosition a)")
     (auto simp: target_def bind_err_eq_Inr dest: locate_in_bounds)

lemma target_error_known:
  "GetSymbol a \<in> set symbols \<Longrightarrow> target M sh bb a = Inl e \<Longrightarrow> e = IndexError"
  by (cases "voxel_index M bb (GetPosition a)")
     (auto simp: target_def bind_err_eq_Inl dest: locate_error list_index_error)

lemma target_unknown:
  "GetSymbol a \<notin> set symbols \<Longrightarrow> target M sh bb a = Inl (ValueError_not_in_list (GetSymbol a))"
  by (simp add: target_def list_index_missing)

lemma loop_body_shape:
  "loop_body M bb g a = Inr g' \<Longrightarrow> shape g' = shape g \<and> length (data g') = length (data g)"
  by (auto simp: loop_body_target bind_err_eq_Inr)

lemma rasterize_shape:
  "rasterize M bb g as = Inr g' \<Longrightarrow> shape g' = shape g \<and> length (data g') = length (data g)"
proof (induction as arbitrary: g)
  case Nil
  then show ?case by simp
next
  case (Cons a as)
  then obtain g1 where 1: "loop_body M bb g a = Inr g1" and 2: "rasterize M bb g1 as = Inr g'"
    by (auto simp: bind_err_eq_Inr)
  from Cons.IH[OF 2] loop_body_shape[OF 1] show ?case by simp
qed

lemma rasterize_succeeds_iff:
  "(\<exists>g'. rasterize M bb g as = Inr g') \<longleftrightarrow> (\<forall>a\<in>set as. \<exists>cell. target M (shape g) bb a = Inr cell)"
proof (induction as arbitrary: g)
  case Nil
  show ?case by simp
next
  case (Cons a as)
  show ?case
  proof (cases "target M (shape g) bb a")
    case (Inl e)
    then show ?thesis by (simp add: loop_body_target)
  next
    case (Inr cell)
    let ?g1 = "g\<lparr>data := (data g)[offset (shape g) cell := 1]\<rparr>"
    have step: "rasterize M bb g (a # as) = rasterize M bb ?g1 as"
      by (simp add: loop_body_target Inr)
    have IH: "(\<exists>g'. rasterize M bb ?g1 as = Inr g')
        \<longleftrightarrow> (\<forall>a\<in>set as. \<exists>cell. target M (shape g) bb a = Inr cell)"
      using Cons.IH[of ?g1] by simp
    show ?thesis unfolding step IH using Inr by (simp del: split_paired_Ex)
  qed
qed

lemma rasterize_nth:
  "rasterize M bb g as = Inr g' \<Longrightarrow> n < length (data g) \<Longrightarrow>
     data g' ! n =
       (if \<exists>a\<in>set as. \<exists>cell. target M (shape g) bb a = Inr cell \<and> offset (shape g) cell = n
        then 1 else data g ! n)"
proof (induction as arbitrary: g)
  case Nil
  then show ?case by simp
next
  case (Cons a as)
  from Cons.prems(1) obtain cell where t: "target M (shape g) bb a = Inr cell"
    and r: "rasterize M bb (g\<lparr>data := (data g)[offset (shape g) cell := 1]\<rparr>) as = Inr g'"
    by (auto simp: loop_body_target bind_err_eq_Inr)
  let ?g1 = "g\<lparr>data := (data g)[offset (shape g) cell := 1]\<rparr>"
  have n: "n < length (data ?g1)" using Cons.prems(2) by simp
  from Cons.IH[OF r n] Cons.prems(2) t show ?case
    by (cases cell) (auto simp: nth_list_update)
qed

lemma rasterize_set_cong:
  assumes "set as = set bs" and "rasterize M bb g as = Inr r"
  shows "rasterize M bb g bs = Inr r"
proof -
  from assms(2) have "\<forall>a\<in>set as. \<exists>cell. target M (shape g) bb a = Inr cell"
    using rasterize_succeeds_iff[of M bb g as] by blast
  with assms(1) have "\<exists>g'. rasterize M bb g bs = Inr g'"
    using rasterize_succeeds_iff[of M bb g bs] by simp
  then obtain r' where r': "rasterize M bb g bs = Inr r'" ..
  have sh: "shape r' = shape r" "length (data r') = length (data r)"
       "length (data r) = length (data g)"
    using rasterize_shape[OF r'] rasterize_shape[OF assms(2)] by simp_all
  have "data r' = data r"
  proof (rule nth_equalityI)
    show "length (data r') = length (data r)" by (rule sh)
  next
    fix n assume "n < length (data r')"
    then have n: "n < length (data g)" using sh by simp
    show "data r' ! n = data r ! n"
      unfolding rasterize_nth[OF r' n] rasterize_nth[OF assms(2) n] assms(1) ..
  qed
  with sh(1) have "r' = r" by simp
  with r' show ?thesis by simp
qed

lemma rasterize_error_known:
  "\<forall>a\<in>set as. GetSymbol a \<in> set symbols \<Longrightarrow> rasterize M bb g as = Inl e \<Longrightarrow> e = IndexError"
proof (induction as arbitrary: g)
  case Nil
  then show ?case by simp
next
  case (Cons a as)
  from Cons.prems(2) consider "loop_body M bb g a = Inl e"
    | g1 where "loop_body M bb g a = Inr g1" "rasterize M bb g1 as = Inl e"
    by (auto simp: bind_err_eq_Inl)
  then show ?case
  proof cases
    case 1
    then have "target M (shape g) bb a = Inl e" by (auto simp: loop_body_target bind_err_eq_Inl)
    with Cons.prems(1) show ?thesis by (auto dest: target_error_known)
  next
    case 2
    with Cons show ?thesis by auto
  qed
qed

subsection \<open>The bounding box and the size of the grid\<close>

lemma X_simps [simp]: "X (a, b, c) = a" "Y (a, b, c) = b" "Z (a, b, c) = c"
  by (simp_all add: X_def Y_def Z_def)

lemma bounding_box_Inr_iff:
  "bounding_box pos = Inr bb \<longleftrightarrow>
     pos \<noteq> [] \<and>
     bb = (np_floor (Min (X ` set pos), Min (Y ` set pos), Min (Z ` set pos)),
           np_ceil (Max (X ` set pos), Max (Y ` set pos), Max (Z ` set pos)))"
  by (cases "pos = []") (auto simp: bounding_box_Nil bounding_box_nonempty)

lemma bounding_box_error: "bounding_box pos = Inl e \<Longrightarrow> pos = [] \<and> e = ValueError_zero_size_array"
  by (cases "pos = []") (auto simp: bounding_box_Nil bounding_box_nonempty)

lemma bounding_box_set_cong: "set p = set q \<Longrightarrow> bounding_box p = bounding_box q"
proof (cases "p = []")
  case True
  assume "set p = set q"
  with True have "q = []" by simp
  with True show ?thesis by simp
next
  case False
  assume s: "set p = set q"
  with False have "q \<noteq> []" by auto
  with False s show ?thesis by (simp add: bounding_box_nonempty)
qed

lemma astype_int64_of_int:
  "astype_int64 (real_of_int n) = (if - (2 ^ 63) \<le> n \<and> n < 2 ^ 63 then n else - (2 ^ 63))"
  by (simp add: astype_int64_def)


lemma floor_le_ceiling_Min_Max:
  fixes S :: "real set"
  assumes "finite S" "S \<noteq> {}"
  shows "\<lfloor>Min S\<rfloor> \<le> \<lceil>Max S\<rceil>"
proof -
  have "Min S \<le> Max S" using assms by simp
  then have "real_of_int \<lfloor>Min S\<rfloor> \<le> real_of_int \<lceil>Max S\<rceil>"
    by linarith
  then show ?thesis by simp
qed

lemma box_of_bounding_box:
  assumes "bounding_box pos = Inr bb"
  shows "\<lfloor>X (fst bb)\<rfloor> \<le> \<lceil>X (snd bb)\<rceil>"
    and "\<lfloor>Y (fst bb)\<rfloor> \<le> \<lceil>Y (snd bb)\<rceil>"
    and "\<lfloor>Z (fst bb)\<rfloor> \<le> \<lceil>Z (snd bb)\<rceil>"
proof -
  from assms have ne: "pos \<noteq> []"
    and bb: "bb = (np_floor (Min (X ` set pos), Min (Y ` set pos), Min (Z ` set pos)),
                   np_ceil (Max (X ` set pos), Max (Y ` set pos), Max (Z ` set pos)))"
    by (simp_all add: bounding_box_Inr_iff)
  have fin: "finite (f ` set pos)" "f ` set pos \<noteq> {}" for f :: "vec3 \<Rightarrow> real"
    using ne by simp_all
  show "\<lfloor>X (fst bb)\<rfloor> \<le> \<lceil>X (snd bb)\<rceil>"
    using floor_le_ceiling_Min_Max[OF fin, of X] by (simp add: bb np_floor_def np_ceil_def)
  show "\<lfloor>Y (fst bb)\<rfloor> \<le> \<lceil>Y (snd bb)\<rceil>"
    using floor_le_ceiling_Min_Max[OF fin, of Y] by (simp add: bb np_floor_def np_ceil_def)
  show "\<lfloor>Z (fst bb)\<rfloor> \<le> \<lceil>Z (snd bb)\<rceil>"
    using floor_le_ceiling_Min_Max[OF fin, of Z] by (simp add: bb np_floor_def np_ceil_def)
qed

text \<open>With coordinates of magnitude at most \<open>2^52\<close> the corners are integers of that
  magnitude, their difference is exact and fits 64 bits.\<close>

lemma axis_extent_exact:
  fixes S :: "real set"
  assumes ex: "exact_on_integers M" and fin: "finite S" "S \<noteq> {}"
    and bd: "\<forall>x\<in>S. \<bar>x\<bar> \<le> 2 ^ 52"
  shows "astype_int64 (fsub M (real_of_int \<lceil>Max S\<rceil>) (real_of_int \<lfloor>Min S\<rfloor>)) = \<lceil>Max S\<rceil> - \<lfloor>Min S\<rfloor>"
proof -
  have mn: "Min S \<in> S" and mx: "Max S \<in> S" using fin by simp_all
  have "\<bar>Min S\<bar> \<le> 2 ^ 52" "\<bar>Max S\<bar> \<le> 2 ^ 52" using bd mn mx by blast+
  then have r: "- (2 ^ 52) \<le> Min S" "Min S \<le> 2 ^ 52" "- (2 ^ 52) \<le> Max S" "Max S \<le> 2 ^ 52"
    by linarith+
  have a1: "- (2 ^ 52) \<le> \<lfloor>Min S\<rfloor>"
    using r(1) by (simp add: le_floor_iff)
  have a2: "\<lfloor>Min S\<rfloor> \<le> 2 ^ 52"
    using r(2) by (simp add: floor_le_iff)
  have b1: "- (2 ^ 52) \<le> \<lceil>Max S\<rceil>"
    using r(3) by (simp add: le_ceiling_iff)
  have b2: "\<lceil>Max S\<rceil> \<le> 2 ^ 52"
    using r(4) by (simp add: ceiling_le_iff)
  have le: "\<lfloor>Min S\<rfloor> \<le> \<lceil>Max S\<rceil>" using fin by (rule floor_le_ceiling_Min_Max)
  have p53: "(2::int) ^ 53 = 2 * 2 ^ 52" and p63: "(2::int) ^ 63 = 2048 * 2 ^ 52"
    and p0: "(0::int) < 2 ^ 52"
    by simp_all
  have "\<bar>\<lceil>Max S\<rceil>\<bar> \<le> 2 ^ 53" "\<bar>\<lfloor>Min S\<rfloor>\<bar> \<le> 2 ^ 53" "\<bar>\<lceil>Max S\<rceil> - \<lfloor>Min S\<rfloor>\<bar> \<le> 2 ^ 53"
    using a1 a2 b1 b2 le p0 unfolding p53 by linarith+
  with ex have "fsub M (real_of_int \<lceil>Max S\<rceil>) (real_of_int \<lfloor>Min S\<rfloor>)
      = real_of_int (\<lceil>Max S\<rceil> - \<lfloor>Min S\<rfloor>)"
    unfolding exact_on_integers_def by blast
  moreover have "- (2 ^ 63) \<le> \<lceil>Max S\<rceil> - \<lfloor>Min S\<rfloor>" "\<lceil>Max S\<rceil> - \<lfloor>Min S\<rfloor> < 2 ^ 63"
    using a1 a2 b1 b2 le p0 unfolding p63 by linarith+
  ultimately show ?thesis by (simp only: astype_int64_of_int if_True simp_thms)
qed

lemma box_size_exact:
  assumes ex: "exact_on_integers M" and bb: "bounding_box pos = Inr bb"
    and bd: "\<forall>p\<in>set pos. \<bar>X p\<bar> \<le> 2 ^ 52 \<and> \<bar>Y p\<bar> \<le> 2 ^ 52 \<and> \<bar>Z p\<bar> \<le> 2 ^ 52"
  shows "box_size M bb = (\<lceil>X (snd bb)\<rceil> - \<lfloor>X (fst bb)\<rfloor>, \<lceil>Y (snd bb)\<rceil> - \<lfloor>Y (fst bb)\<rfloor>,
                          \<lceil>Z (snd bb)\<rceil> - \<lfloor>Z (fst bb)\<rfloor>)"
proof -
  from bb have ne: "pos \<noteq> []"
    and eq: "bb = (np_floor (Min (X ` set pos), Min (Y ` set pos), Min (Z ` set pos)),
                   np_ceil (Max (X ` set pos), Max (Y ` set pos), Max (Z ` set pos)))"
    by (simp_all add: bounding_box_Inr_iff)
  have fin: "finite (f ` set pos)" "f ` set pos \<noteq> {}" for f :: "vec3 \<Rightarrow> real"
    using ne by simp_all
  have "\<forall>x\<in>X ` set pos. \<bar>x\<bar> \<le> 2 ^ 52" "\<forall>x\<in>Y ` set pos. \<bar>x\<bar> \<le> 2 ^ 52"
       "\<forall>x\<in>Z ` set pos. \<bar>x\<bar> \<le> 2 ^ 52"
    using bd by auto
  then show ?thesis
    using axis_extent_exact[OF ex fin, of X] axis_extent_exact[OF ex fin, of Y]
      axis_extent_exact[OF ex fin, of Z]
    by (simp add: eq box_size_def astype_int_def vsub_def np_floor_def np_ceil_def)
qed

subsection \<open>The loop body and the loop\<close>


lemma loop_body_Inr_iff:
  "loop_body M bb g a = Inr g' \<longleftrightarrow>
     (\<exists>cell. target M (shape g) bb a = Inr cell \<and>
             g' = g\<lparr>data := (data g)[offset (shape g) cell := 1]\<rparr>)"
  by (auto simp: loop_body_target bind_err_eq_Inr simp del: split_paired_Ex)

lemma getitem_int:
  "in_bounds (shape g) (i, j, k, c) \<Longrightarrow>
     getitem g (int i, int j, int k, int c) = Inr (data g ! offset (shape g) (i, j, k, c))"
  by (simp add: getitem_def locate_int)

lemma rasterize_append:
  "rasterize M bb g (xs @ ys) = bind_err (rasterize M bb g xs) (\<lambda>g1. rasterize M bb g1 ys)"
  by (induction xs arbitrary: g) (auto simp: bind_err_def split: sum.splits)

lemma zero_grid_Inr:
  "zero_grid M bs = Inr g \<Longrightarrow> well_formed g \<and> data g = replicate (cell_count (shape g)) 0"
  by (cases bs)
     (auto simp: zero_grid_def np_zeros_def well_formed_def cell_count_def split: if_splits)

lemma binary_update: "binary g \<Longrightarrow> binary (g\<lparr>data := (data g)[n := 1]\<rparr>)"
  by (auto simp: binary_def list_all_iff dest: set_update_subset_insert[THEN subsetD])

lemma loop_body_binary: "binary g \<Longrightarrow> loop_body M bb g a = Inr g' \<Longrightarrow> binary g'"
  by (auto simp: loop_body_Inr_iff binary_update simp del: split_paired_Ex)

lemma rasterize_binary: "binary g \<Longrightarrow> rasterize M bb g as = Inr g' \<Longrightarrow> binary g'"
proof (induction as arbitrary: g)
  case Nil
  then show ?case by simp
next
  case (Cons a as)
  from Cons.prems(2) obtain g1 where "loop_body M bb g a = Inr g1" "rasterize M bb g1 as = Inr g'"
    by (auto simp: bind_err_eq_Inr)
  with Cons.IH[of g1] loop_body_binary[OF Cons.prems(1)] show ?case by blast
qed

lemma zero_grid_binary: "zero_grid M bs = Inr g \<Longrightarrow> binary g"
  by (auto simp: binary_def list_all_iff dest!: zero_grid_Inr)

lemma list_update_keeps_one:
  "n < length xs \<Longrightarrow> xs ! n = (1::real) \<Longrightarrow> xs[k := 1] ! n = 1"
  by (cases "k = n") simp_all

lemma loop_body_keeps_ones:
  "loop_body M bb g a = Inr g' \<Longrightarrow> n < length (data g) \<Longrightarrow> data g ! n = 1 \<Longrightarrow> data g' ! n = 1"
  by (auto simp: loop_body_Inr_iff list_update_keeps_one simp del: split_paired_Ex)

lemma rasterize_keeps_ones:
  "rasterize M bb g as = Inr g' \<Longrightarrow> n < length (data g) \<Longrightarrow> data g ! n = 1 \<Longrightarrow> data g' ! n = 1"
  by (simp add: rasterize_nth del: split_paired_Ex)

lemma voxelize_Inr_iff:
  "voxelize M mol = Inr g \<longleftrightarrow>
     (\<exists>bb g0. bounding_box (map GetPosition mol) = Inr bb \<and> zero_grid M (box_size M bb) = Inr g0
        \<and> rasterize M bb g0 mol = Inr g)"
  by (simp add: voxelize_def Let_def bind_err_eq_Inr del: split_paired_Ex)

lemma voxelize_set_cong:
  assumes "set xs = set ys" and "voxelize M xs = Inr g"
  shows "voxelize M ys = Inr g"
proof -
  from assms(2) obtain bb g0 where bb: "bounding_box (map GetPosition xs) = Inr bb"
    and g0: "zero_grid M (box_size M bb) = Inr g0" and r: "rasterize M bb g0 xs = Inr g"
    unfolding voxelize_Inr_iff by blast
  have "set (map GetPosition xs) = set (map GetPosition ys)" using assms(1) by simp
  then have "bounding_box (map GetPosition ys) = Inr bb"
    using bb bounding_box_set_cong by metis
  moreover have "rasterize M bb g0 ys = Inr g" using assms(1) r by (rule rasterize_set_cong)
  ultimately show ?thesis unfolding voxelize_Inr_iff using g0 by blast
qed

lemma voxelize_binary: "voxelize M mol = Inr g \<Longrightarrow> binary g"
  unfolding voxelize_Inr_iff using zero_grid_binary rasterize_binary by blast

subsection \<open>Unknown symbols\<close>

lemma loop_body_unknown:
  "GetSymbol a \<notin> set symbols \<Longrightarrow> loop_body M bb g a = Inl (ValueError_not_in_list (GetSymbol a))"
  by (simp add: loop_body_target target_unknown)

lemma loop_body_error_known:
  "GetSymbol a \<in> set symbols \<Longrightarrow> loop_body M bb g a = Inl e \<Longrightarrow> e = IndexError"
  by (auto simp: loop_body_target bind_err_eq_Inl dest: target_error_known)

lemma rasterize_unknown_fails:
  assumes "GetSymbol a \<notin> set symbols"
  shows "\<exists>e. rasterize M bb g (pre @ a # post) = Inl e"
proof (cases "rasterize M bb g (pre @ a # post)")
  case (Inl e)
  then show ?thesis by blast
next
  case (Inr r)
  then have "\<exists>cell. target M (shape g) bb a = Inr cell"
    using rasterize_succeeds_iff[of M bb g "pre @ a # post"] by auto
  with assms show ?thesis by (simp add: target_unknown)
qed

lemma voxelize_unknown_fails:
  assumes "GetSymbol a \<notin> set symbols"
  shows "\<exists>e. voxelize M (pre @ a # post) = Inl e"
proof (cases "voxelize M (pre @ a # post)")
  case (Inl e)
  then show ?thesis by blast
next
  case (Inr r)
  then obtain bb g0 where "rasterize M bb g0 (pre @ a # post) = Inr r"
    unfolding voxelize_Inr_iff by blast
  with rasterize_unknown_fails[OF assms, of M bb g0 pre post] show ?thesis by simp
qed

subsection \<open>Subscripts that numpy accepts\<close>









lemma exact_on_integers_reference: "exact_on_integers reference_platform"
  by (simp add: exact_on_integers_def reference_platform_def)

section \<open>The claims\<close>

text \<open>
  C1. The specification states that every atom's voxel index lies inside the grid built
  from the bounding box of the same atoms, also for an atom on an integral maximum. The
  notebook does not do that: for the molecule \<open>edge_mol\<close> the box is \<open>(0, 0, 0)\<close> to \<open>(2, 2, 2)\<close>,
  the grid has two voxels along the first axis, the atom at \<open>x = 2\<close> gets the voxel index 2
  there, and the store raises \<open>IndexError\<close>. A molecule of one atom with integral
  coordinates gets a grid without cells and fails the same way. Every difference taken on
  these inputs is a binary64 number, so the machine with exact subtraction computes what
  binary64 computes.
\<close>

theorem edge_atom_out_of_bounds:
  "bounding_box (map GetPosition edge_mol) = Inr ((0, 0, 0), (2, 2, 2))
   \<and> box_size reference_platform ((0, 0, 0), (2, 2, 2)) = (2, 2, 2)
   \<and> zero_grid reference_platform (2, 2, 2) = Inr \<lparr>shape = (2, 2, 2, 4), data = replicate 32 0\<rparr>
   \<and> voxel_index reference_platform ((0, 0, 0), (2, 2, 2)) (2, 1.5, 1.5) = (2, 1, 1)
   \<and> loop_body reference_platform ((0, 0, 0), (2, 2, 2))
        \<lparr>shape = (2, 2, 2, 4), data = replicate 32 0\<rparr>
        \<lparr>GetPosition = (2, 1.5, 1.5), GetSymbol = ''N''\<rparr> = Inl IndexError
   \<and> voxelize reference_platform edge_mol = Inl IndexError
   \<and> voxelize reference_platform [\<lparr>GetPosition = (1, 2, 3), GetSymbol = ''C''\<rparr>] = Inl IndexError"
  by code_simp

text \<open>
  C2. For the two atoms \<open>(0.2, 0.3, 0.1)\<close> of element C and \<open>(1.8, 1.1, 0.9)\<close> of element N
  the bounding box is \<open>(0, 0, 0)\<close> to \<open>(2, 2, 1)\<close>, the grid has shape \<open>(2, 2, 1, 4)\<close>,
  \<open>grid[0, 0, 0, 0]\<close> and \<open>grid[1, 1, 0, 1]\<close> are 1 and the other fourteen cells are 0. The
  box's minimum is zero, so every difference taken is exact.
\<close>

theorem scenario_grid:
  "bounding_box (map GetPosition scenario_mol) = Inr ((0, 0, 0), (2, 2, 1))
   \<and> box_size reference_platform ((0, 0, 0), (2, 2, 1)) = (2, 2, 1)
   \<and> voxelize reference_platform scenario_mol =
       Inr \<lparr>shape = (2, 2, 1, 4), data = [1, 0, 0, 0,  0, 0, 0, 0,  0, 0, 0, 0,  0, 1, 0, 0]\<rparr>
   \<and> [getitem \<lparr>shape = (2, 2, 1, 4), data = [1, 0, 0, 0,  0, 0, 0, 0,  0, 0, 0, 0,  0, 1, 0, 0]\<rparr>
          (i, j, k, c).
        i \<leftarrow> [0, 1], j \<leftarrow> [0, 1], k \<leftarrow> [0], c \<leftarrow> [0, 1, 2, 3]] =
      [Inr 1, Inr 0, Inr 0, Inr 0,  Inr 0, Inr 0, Inr 0, Inr 0,
       Inr 0, Inr 0, Inr 0, Inr 0,  Inr 0, Inr 1, Inr 0, Inr 0]"
  by code_simp

text \<open>
  C3. For every non-empty list of positions, \<open>bounding_box\<close> succeeds; its lower corner is
  the component-wise floor of the component-wise minimum of the positions, its upper corner
  the component-wise ceiling of the component-wise maximum, and all six coordinates of the
  corners are integers.
\<close>

theorem bounding_box_floor_min_ceil_max:
  assumes "pos \<noteq> []"
  shows "\<exists>lo hi. bounding_box pos = Inr (lo, hi)
     \<and> lo = (real_of_int \<lfloor>Min (X ` set pos)\<rfloor>, real_of_int \<lfloor>Min (Y ` set pos)\<rfloor>,
             real_of_int \<lfloor>Min (Z ` set pos)\<rfloor>)
     \<and> hi = (real_of_int \<lceil>Max (X ` set pos)\<rceil>, real_of_int \<lceil>Max (Y ` set pos)\<rceil>,
             real_of_int \<lceil>Max (Z ` set pos)\<rceil>)
     \<and> X lo \<in> \<int> \<and> Y lo \<in> \<int> \<and> Z lo \<in> \<int> \<and> X hi \<in> \<int> \<and> Y hi \<in> \<int> \<and> Z hi \<in> \<int>"
  using assms by (simp add: bounding_box_nonempty np_floor_def np_ceil_def)

theorem bounding_box_floor_min_ceil_max_witness:
  "[(0.2, 0.3, 0.1), (1.8, 1.1, 0.9)] \<noteq> ([] :: vec3 list)
   \<and> bounding_box [(0.2, 0.3, 0.1), (1.8, 1.1, 0.9)] = Inr ((0, 0, 0), (2, 2, 1))"
  using bounding_box_floor_min_ceil_max[of "[(0.2, 0.3, 0.1), (1.8, 1.1, 0.9)]"]
  by simp

text \<open>
  C4. Let the coordinates of all positions be at most \<open>2^52\<close> in magnitude, on a machine
  whose subtraction is exact on integers up to \<open>2^53\<close> (as binary64 subtraction is), and
  let the shape pass numpy's size check and the allocator provide the buffer. Then for the
  box that \<open>bounding_box\<close> returns the grid is allocated without an exception; its extent
  along each spatial axis is the ceiling of the box's maximum minus the floor of its
  minimum, which is a natural number; its channel axis has as many entries as the alphabet
  \<open>symbols\<close>; and every cell is zero.

  Without the bounds this fails. For two atoms \<open>10^19\<close> apart the conversion to a 64-bit
  integer turns the extent into \<open>-2^63\<close> and \<open>np.zeros\<close> raises \<open>ValueError\<close>; a box of
  \<open>2^20\<close> voxels along each axis is too big for numpy to size; and an allocator that
  cannot provide the buffer makes \<open>np.zeros\<close> raise \<open>MemoryError\<close>.
\<close>

theorem zero_grid_shape:
  assumes ex: "exact_on_integers M"
    and bb: "bounding_box pos = Inr bb"
    and bd: "\<forall>p\<in>set pos. \<bar>X p\<bar> \<le> 2 ^ 52 \<and> \<bar>Y p\<bar> \<le> 2 ^ 52 \<and> \<bar>Z p\<bar> \<le> 2 ^ 52"
    and sz: "size_ok (nat (\<lceil>X (snd bb)\<rceil> - \<lfloor>X (fst bb)\<rfloor>), nat (\<lceil>Y (snd bb)\<rceil> - \<lfloor>Y (fst bb)\<rfloor>),
                      nat (\<lceil>Z (snd bb)\<rceil> - \<lfloor>Z (fst bb)\<rfloor>), 4)"
    and al: "can_alloc M (nat (\<lceil>X (snd bb)\<rceil> - \<lfloor>X (fst bb)\<rfloor>) * nat (\<lceil>Y (snd bb)\<rceil> - \<lfloor>Y (fst bb)\<rfloor>)
                          * nat (\<lceil>Z (snd bb)\<rceil> - \<lfloor>Z (fst bb)\<rfloor>) * 4)"
  shows "\<exists>g n0 n1 n2.
       zero_grid M (box_size M bb) = Inr g
     \<and> int n0 = \<lceil>X (snd bb)\<rceil> - \<lfloor>X (fst bb)\<rfloor>
     \<and> int n1 = \<lceil>Y (snd bb)\<rceil> - \<lfloor>Y (fst bb)\<rfloor>
     \<and> int n2 = \<lceil>Z (snd bb)\<rceil> - \<lfloor>Z (fst bb)\<rfloor>
     \<and> shape g = (n0, n1, n2, length symbols)
     \<and> data g = replicate (n0 * n1 * n2 * length symbols) 0"
proof -
  note b = box_of_bounding_box[OF bb]
  note s = box_size_exact[OF ex bb bd]
  let ?n0 = "nat (\<lceil>X (snd bb)\<rceil> - \<lfloor>X (fst bb)\<rfloor>)"
  let ?n1 = "nat (\<lceil>Y (snd bb)\<rceil> - \<lfloor>Y (fst bb)\<rfloor>)"
  let ?n2 = "nat (\<lceil>Z (snd bb)\<rceil> - \<lfloor>Z (fst bb)\<rfloor>)"
  let ?g = "\<lparr>shape = (?n0, ?n1, ?n2, 4), data = replicate (?n0 * ?n1 * ?n2 * 4) 0\<rparr>"
  have "zero_grid M (box_size M bb) = Inr ?g"
    using b sz al by (simp add: s zero_grid_def np_zeros_def)
  moreover have "length symbols = 4" by (simp add: symbols_def)
  ultimately show ?thesis using b
    by (intro exI[of _ ?g] exI[of _ ?n0] exI[of _ ?n1] exI[of _ ?n2]) simp
qed

theorem zero_grid_shape_witness:
  "exact_on_integers reference_platform
   \<and> bounding_box [(0.2, 0.3, 0.1), (1.8, 1.1, 0.9)] = Inr ((0, 0, 0), (2, 2, 1))
   \<and> zero_grid reference_platform (box_size reference_platform ((0, 0, 0), (2, 2, 1)))
       = Inr \<lparr>shape = (2, 2, 1, 4), data = replicate 16 0\<rparr>"
proof -
  let ?pos = "[(0.2, 0.3, 0.1), (1.8, 1.1, 0.9)] :: vec3 list"
  let ?b = "((0, 0, 0), (2, 2, 1)) :: vec3 \<times> vec3"
  have h: "bounding_box ?pos = Inr ?b"
    by (simp add: bounding_box_def np_floor_def np_ceil_def)
  have bd: "\<forall>p\<in>set ?pos. \<bar>X p\<bar> \<le> 2 ^ 52 \<and> \<bar>Y p\<bar> \<le> 2 ^ 52 \<and> \<bar>Z p\<bar> \<le> 2 ^ 52"
    by simp
  have sz: "size_ok (nat (\<lceil>X (snd ?b)\<rceil> - \<lfloor>X (fst ?b)\<rfloor>), nat (\<lceil>Y (snd ?b)\<rceil> - \<lfloor>Y (fst ?b)\<rfloor>),
                     nat (\<lceil>Z (snd ?b)\<rceil> - \<lfloor>Z (fst ?b)\<rfloor>), 4)"
    by (simp add: size_ok_def)
  have al: "can_alloc reference_platform
              (nat (\<lceil>X (snd ?b)\<rceil> - \<lfloor>X (fst ?b)\<rfloor>) * nat (\<lceil>Y (snd ?b)\<rceil> - \<lfloor>Y (fst ?b)\<rfloor>)
               * nat (\<lceil>Z (snd ?b)\<rceil> - \<lfloor>Z (fst ?b)\<rfloor>) * 4)"
    by (simp add: reference_platform_def)
  from zero_grid_shape[OF exact_on_integers_reference h bd sz al] obtain g n0 n1 n2 where
    "zero_grid reference_platform (box_size reference_platform ?b) = Inr g"
    "int n0 = 2" "int n1 = 2" "int n2 = 1"
    "shape g = (n0, n1, n2, length symbols)" "data g = replicate (n0 * n1 * n2 * length symbols) 0"
    by auto
  then have "zero_grid reference_platform (box_size reference_platform ?b)
      = Inr \<lparr>shape = (2, 2, 1, 4), data = replicate 16 0\<rparr>"
    by (cases g) (simp add: symbols_def)
  with h exact_on_integers_reference show ?thesis by simp
qed

theorem zero_grid_shape_counterexample:
  "bounding_box [(0, 0, 0), (10 ^ 19, 0, 0)] = Inr ((0, 0, 0), (10 ^ 19, 0, 0))
   \<and> \<lceil>X (snd (((0, 0, 0), (10 ^ 19, 0, 0)) :: vec3 \<times> vec3))\<rceil>
       - \<lfloor>X (fst (((0, 0, 0), (10 ^ 19, 0, 0)) :: vec3 \<times> vec3))\<rfloor> = 10 ^ 19
   \<and> box_size reference_platform ((0, 0, 0), (10 ^ 19, 0, 0)) = (- (2 ^ 63), 0, 0)
   \<and> zero_grid reference_platform (box_size reference_platform ((0, 0, 0), (10 ^ 19, 0, 0)))
       = Inl ValueError_dimensions
   \<and> bounding_box [(0, 0, 0), (2 ^ 20, 2 ^ 20, 2 ^ 20)] = Inr ((0, 0, 0), (2 ^ 20, 2 ^ 20, 2 ^ 20))
   \<and> zero_grid reference_platform
        (box_size reference_platform ((0, 0, 0), (2 ^ 20, 2 ^ 20, 2 ^ 20)))
       = Inl ValueError_dimensions
   \<and> zero_grid \<lparr>fsub = (\<lambda>x y. x - y), can_alloc = (\<lambda>n. n < 16)\<rparr> (2, 2, 1) = Inl MemoryError"
proof -
  have 1: "bounding_box [(0, 0, 0), (10 ^ 19, 0, 0)] = Inr ((0, 0, 0), (10 ^ 19, 0, 0))"
    by (simp add: bounding_box_def np_floor_def np_ceil_def)
  have 2: "\<lceil>X (snd (((0, 0, 0), (10 ^ 19, 0, 0)) :: vec3 \<times> vec3))\<rceil>
       - \<lfloor>X (fst (((0, 0, 0), (10 ^ 19, 0, 0)) :: vec3 \<times> vec3))\<rfloor> = 10 ^ 19"
    by simp
  have 3: "box_size reference_platform ((0, 0, 0), (10 ^ 19, 0, 0)) = (- (2 ^ 63), 0, 0)"
    by (simp add: box_size_def vsub_def astype_int_def astype_int64_def trunc_def
        reference_platform_def)
  have 4: "zero_grid reference_platform (- (2 ^ 63), 0, 0) = Inl ValueError_dimensions"
    by (simp add: zero_grid_def np_zeros_def)
  have 5: "bounding_box [(0, 0, 0), (2 ^ 20, 2 ^ 20, 2 ^ 20)]
      = Inr ((0, 0, 0), (2 ^ 20, 2 ^ 20, 2 ^ 20))"
    by (simp add: bounding_box_def np_floor_def np_ceil_def)
  have 6: "box_size reference_platform ((0, 0, 0), (2 ^ 20, 2 ^ 20, 2 ^ 20))
      = (2 ^ 20, 2 ^ 20, 2 ^ 20)"
    by (simp add: box_size_def vsub_def astype_int_def astype_int64_def trunc_def
        reference_platform_def)
  have 7: "zero_grid reference_platform (2 ^ 20, 2 ^ 20, 2 ^ 20) = Inl ValueError_dimensions"
    by (simp add: zero_grid_def np_zeros_def size_ok_def)
  have 8: "zero_grid \<lparr>fsub = (\<lambda>x y. x - y), can_alloc = (\<lambda>n. n < 16)\<rparr> (2, 2, 1)
      = Inl MemoryError"
    by (simp add: zero_grid_def np_zeros_def size_ok_def)
  have b4: "zero_grid reference_platform
        (box_size reference_platform ((0, 0, 0), (10 ^ 19, 0, 0))) = Inl ValueError_dimensions"
    by (simp only: 3 4)
  have b7: "zero_grid reference_platform
        (box_size reference_platform ((0, 0, 0), (2 ^ 20, 2 ^ 20, 2 ^ 20)))
      = Inl ValueError_dimensions"
    by (simp only: 6 7)
  show ?thesis
    using 1 2 3 b4 5 b7 8 by (intro conjI)
qed




text \<open>
  C6. For an atom that the molecule already contains, voxelising the molecule with a second
  copy of that atom put in at any place gives a grid exactly when voxelising the molecule
  itself does, and the two grids are equal; every cell of the grid is 0 or 1.
\<close>

theorem duplicate_atom_same_grid:
  assumes "a \<in> set (xs @ ys)"
  shows "(voxelize M (xs @ a # ys) = Inr g \<longleftrightarrow> voxelize M (xs @ ys) = Inr g)
     \<and> (voxelize M (xs @ ys) = Inr g \<longrightarrow> (\<forall>v\<in>set (data g). v = 0 \<or> v = 1))"
proof -
  have s: "set (xs @ a # ys) = set (xs @ ys)" using assms by auto
  have "voxelize M (xs @ a # ys) = Inr g \<longleftrightarrow> voxelize M (xs @ ys) = Inr g"
    using voxelize_set_cong[OF s] voxelize_set_cong[OF s[symmetric]] by blast
  moreover have "\<forall>v\<in>set (data g). v = 0 \<or> v = 1" if "voxelize M (xs @ ys) = Inr g"
    using voxelize_binary[OF that] by (simp add: binary_def list_all_iff)
  ultimately show ?thesis by blast
qed

theorem duplicate_atom_same_grid_witness:
  "\<lparr>GetPosition = (0.2, 0.3, 0.1), GetSymbol = ''C''\<rparr> \<in> set ([] @ scenario_mol)
   \<and> voxelize reference_platform ([] @ scenario_mol) =
       Inr \<lparr>shape = (2, 2, 1, 4), data = [1, 0, 0, 0,  0, 0, 0, 0,  0, 0, 0, 0,  0, 1, 0, 0]\<rparr>
   \<and> voxelize reference_platform ([] @ \<lparr>GetPosition = (0.2, 0.3, 0.1), GetSymbol = ''C''\<rparr> # scenario_mol) =
       Inr \<lparr>shape = (2, 2, 1, 4), data = [1, 0, 0, 0,  0, 0, 0, 0,  0, 0, 0, 0,  0, 1, 0, 0]\<rparr>"
proof -
  let ?a = "\<lparr>GetPosition = (0.2, 0.3, 0.1), GetSymbol = ''C''\<rparr>"
  let ?g = "\<lparr>shape = (2, 2, 1, 4), data = [1, 0, 0, 0,  0, 0, 0, 0,  0, 0, 0, 0,  0, 1, 0, 0]\<rparr>"
  have m: "?a \<in> set ([] @ scenario_mol)" by (simp add: scenario_mol_def)
  have v: "voxelize reference_platform ([] @ scenario_mol) = Inr ?g" by code_simp
  from duplicate_atom_same_grid[OF m, of reference_platform ?g] v
  have "voxelize reference_platform ([] @ ?a # scenario_mol) = Inr ?g" by blast
  with m v show ?thesis by blast
qed

text \<open>
  C7. An atom whose symbol is not in \<open>symbols\<close> makes the loop body raise the
  \<open>ValueError\<close> of \<open>list.index\<close>, which names the symbol (the specification's
  UnknownElementError), whatever the grid and the position; the loop raises it as soon as
  it reaches the atom, and neither the loop nor the whole voxelisation returns a grid. An
  atom whose symbol is in \<open>symbols\<close> never raises that exception, and neither does a loop
  over such atoms.
\<close>

theorem unknown_symbol_raises:
  "(GetSymbol a \<notin> set symbols \<longrightarrow>
       loop_body M bb g a = Inl (ValueError_not_in_list (GetSymbol a))
     \<and> (\<forall>g1. rasterize M bb g pre = Inr g1 \<longrightarrow>
           rasterize M bb g (pre @ a # post) = Inl (ValueError_not_in_list (GetSymbol a)))
     \<and> (\<exists>e. rasterize M bb g (pre @ a # post) = Inl e)
     \<and> (\<exists>e. voxelize M (pre @ a # post) = Inl e))
   \<and> (GetSymbol a \<in> set symbols \<longrightarrow> (\<forall>s. loop_body M bb g a \<noteq> Inl (ValueError_not_in_list s)))
   \<and> ((\<forall>x\<in>set as. GetSymbol x \<in> set symbols) \<longrightarrow>
        (\<forall>s. rasterize M bb g as \<noteq> Inl (ValueError_not_in_list s)))"
proof (intro conjI impI allI)
  assume u: "GetSymbol a \<notin> set symbols"
  show "loop_body M bb g a = Inl (ValueError_not_in_list (GetSymbol a))"
    using u by (rule loop_body_unknown)
  show "\<exists>e. rasterize M bb g (pre @ a # post) = Inl e"
    using u by (rule rasterize_unknown_fails)
  show "\<exists>e. voxelize M (pre @ a # post) = Inl e"
    using u by (rule voxelize_unknown_fails)
  fix g1 assume "rasterize M bb g pre = Inr g1"
  then show "rasterize M bb g (pre @ a # post) = Inl (ValueError_not_in_list (GetSymbol a))"
    using u by (simp add: rasterize_append loop_body_unknown)
next
  fix s assume "GetSymbol a \<in> set symbols"
  then show "loop_body M bb g a \<noteq> Inl (ValueError_not_in_list s)"
    using loop_body_error_known by fastforce
next
  fix s assume "\<forall>x\<in>set as. GetSymbol x \<in> set symbols"
  then show "rasterize M bb g as \<noteq> Inl (ValueError_not_in_list s)"
    using rasterize_error_known by fastforce
qed

theorem unknown_symbol_raises_witness:
  "''P'' \<notin> set symbols
   \<and> loop_body reference_platform ((0, 0, 0), (1, 1, 1)) \<lparr>shape = (1, 1, 1, 4), data = [0, 0, 0, 0]\<rparr>
        \<lparr>GetPosition = (0.5, 0.5, 0.5), GetSymbol = ''P''\<rparr> = Inl (ValueError_not_in_list ''P'')
   \<and> rasterize reference_platform ((0, 0, 0), (1, 1, 1)) \<lparr>shape = (1, 1, 1, 4), data = [0, 0, 0, 0]\<rparr>
        ([\<lparr>GetPosition = (0.5, 0.5, 0.5), GetSymbol = ''C''\<rparr>]
          @ \<lparr>GetPosition = (0.5, 0.5, 0.5), GetSymbol = ''P''\<rparr>
          # [\<lparr>GetPosition = (0.5, 0.5, 0.5), GetSymbol = ''Q''\<rparr>])
        = Inl (ValueError_not_in_list ''P'')
   \<and> ''C'' \<in> set symbols
   \<and> loop_body reference_platform ((0, 0, 0), (1, 1, 1)) \<lparr>shape = (1, 1, 1, 4), data = [0, 0, 0, 0]\<rparr>
        \<lparr>GetPosition = (0.5, 0.5, 0.5), GetSymbol = ''C''\<rparr> \<noteq> Inl (ValueError_not_in_list ''C'')
   \<and> set (map GetSymbol scenario_mol) \<subseteq> set symbols
   \<and> rasterize reference_platform ((0, 0, 0), (2, 2, 1)) \<lparr>shape = (2, 2, 1, 4), data = replicate 16 0\<rparr> scenario_mol
        \<noteq> Inl (ValueError_not_in_list ''C'')"
proof -
  let ?b = "((0, 0, 0), (1, 1, 1)) :: vec3 \<times> vec3"
  let ?g = "\<lparr>shape = (1, 1, 1, 4), data = [0, 0, 0, 0]\<rparr>"
  let ?P = "\<lparr>GetPosition = (0.5, 0.5, 0.5), GetSymbol = ''P''\<rparr>"
  let ?C = "\<lparr>GetPosition = (0.5, 0.5, 0.5), GetSymbol = ''C''\<rparr>"
  let ?Q = "\<lparr>GetPosition = (0.5, 0.5, 0.5), GetSymbol = ''Q''\<rparr>"
  have p: "GetSymbol ?P \<notin> set symbols" by (simp add: symbols_def)
  have c: "GetSymbol ?C \<in> set symbols" by (simp add: symbols_def)
  have k: "\<forall>x\<in>set scenario_mol. GetSymbol x \<in> set symbols"
    by (simp add: scenario_mol_def symbols_def)
  have pre: "rasterize reference_platform ?b ?g [?C] = Inr \<lparr>shape = (1, 1, 1, 4), data = [1, 0, 0, 0]\<rparr>"
    by code_simp
  have 1: "loop_body reference_platform ?b ?g ?P = Inl (ValueError_not_in_list ''P'')"
    using unknown_symbol_raises[of ?P reference_platform ?b ?g "[?C]" "[?Q]" "[]"] p by simp
  have 2: "rasterize reference_platform ?b ?g ([?C] @ ?P # [?Q]) = Inl (ValueError_not_in_list ''P'')"
    using unknown_symbol_raises[of ?P reference_platform ?b ?g "[?C]" "[?Q]" "[]"] p pre by simp
  have 3: "loop_body reference_platform ?b ?g ?C \<noteq> Inl (ValueError_not_in_list ''C'')"
    using unknown_symbol_raises[of ?C reference_platform ?b ?g "[]" "[]" "[]"] c by blast
  have 4: "rasterize reference_platform ((0, 0, 0), (2, 2, 1)) \<lparr>shape = (2, 2, 1, 4), data = replicate 16 0\<rparr> scenario_mol
        \<noteq> Inl (ValueError_not_in_list ''C'')"
    using unknown_symbol_raises[of ?C reference_platform "((0, 0, 0), (2, 2, 1))"
        "\<lparr>shape = (2, 2, 1, 4), data = replicate 16 0\<rparr>" "[]" "[]" scenario_mol] k by blast
  have 5: "set (map GetSymbol scenario_mol) \<subseteq> set symbols" using k by auto
  from p c 1 2 3 4 5 show ?thesis by simp
qed

text \<open>
  C8. \<open>bounding_box\<close> raises exactly when the list of positions is empty, and what it raises
  then is numpy's \<open>ValueError\<close> for the reduction of an array of size zero (the
  specification's EmptyInputError); for every non-empty list it returns a box.
\<close>

theorem bounding_box_fails_iff_empty:
  "(bounding_box pos = Inl ValueError_zero_size_array \<longleftrightarrow> pos = [])
   \<and> ((\<exists>e. bounding_box pos = Inl e) \<longleftrightarrow> pos = [])
   \<and> (pos \<noteq> [] \<longrightarrow> (\<exists>bb. bounding_box pos = Inr bb))"
  by (cases "pos = []")
     (simp_all add: bounding_box_Nil bounding_box_nonempty del: split_paired_Ex)

theorem bounding_box_fails_iff_empty_witness:
  "bounding_box [] = Inl ValueError_zero_size_array
   \<and> [(1, 2, 3)] \<noteq> ([] :: vec3 list) \<and> (\<exists>bb. bounding_box [(1, 2, 3)] = Inr bb)"
  using bounding_box_fails_iff_empty[of "[]"] bounding_box_fails_iff_empty[of "[(1, 2, 3)]"]
  by simp

text \<open>
  C9. When the symbols of all atoms are in the alphabet, running the loop over any
  permutation of the atoms, from the same bounding box and the same grid, gives the same
  result.
\<close>

theorem rasterize_any_order:
  assumes "mset xs = mset ys" and "\<forall>a\<in>set xs. GetSymbol a \<in> set symbols"
  shows "rasterize M bb g xs = rasterize M bb g ys"
proof -
  have s: "set xs = set ys" using assms(1) by (rule mset_eq_setD)
  show ?thesis
  proof (cases "rasterize M bb g xs")
    case (Inr r)
    with rasterize_set_cong[OF s] show ?thesis by simp
  next
    case (Inl e)
    then have e: "e = IndexError" using assms(2) rasterize_error_known by blast
    show ?thesis
    proof (cases "rasterize M bb g ys")
      case (Inr r)
      with rasterize_set_cong[OF s[symmetric]] Inl show ?thesis by simp
    next
      case (Inl e')
      then have "e' = IndexError" using assms(2) s rasterize_error_known by blast
      with Inl e \<open>rasterize M bb g xs = Inl e\<close> show ?thesis by simp
    qed
  qed
qed

theorem rasterize_any_order_witness:
  "mset scenario_mol = mset (rev scenario_mol)
   \<and> set (map GetSymbol scenario_mol) \<subseteq> set symbols
   \<and> rasterize reference_platform ((0, 0, 0), (2, 2, 1)) \<lparr>shape = (2, 2, 1, 4), data = replicate 16 0\<rparr> (rev scenario_mol)
       = Inr \<lparr>shape = (2, 2, 1, 4), data = [1, 0, 0, 0,  0, 0, 0, 0,  0, 0, 0, 0,  0, 1, 0, 0]\<rparr>"
proof -
  let ?z = "\<lparr>shape = (2, 2, 1, 4), data = replicate 16 0\<rparr>"
  let ?g = "\<lparr>shape = (2, 2, 1, 4), data = [1, 0, 0, 0,  0, 0, 0, 0,  0, 0, 0, 0,  0, 1, 0, 0]\<rparr>"
  have p: "mset scenario_mol = mset (rev scenario_mol)" by simp
  have k: "\<forall>a\<in>set scenario_mol. GetSymbol a \<in> set symbols"
    by (simp add: scenario_mol_def symbols_def)
  have r: "rasterize reference_platform ((0, 0, 0), (2, 2, 1)) ?z scenario_mol = Inr ?g" by code_simp
  from rasterize_any_order[OF p k, of reference_platform "((0, 0, 0), (2, 2, 1))" ?z] r
  have "rasterize reference_platform ((0, 0, 0), (2, 2, 1)) ?z (rev scenario_mol) = Inr ?g" by simp
  moreover have "set (map GetSymbol scenario_mol) \<subseteq> set symbols"
    using k by auto
  ultimately show ?thesis using p by blast
qed

text \<open>
  C10. The grid starts with all cells 0. After any number of atoms every cell is 0 or 1,
  and processing the next atom, or any further atoms, leaves every cell that is 1 at 1.
\<close>

theorem occupancy_binary_monotone:
  assumes z: "zero_grid M bs = Inr g0"
      and r: "rasterize M bb g0 pre = Inr g1"
      and s: "loop_body M bb g1 a = Inr g2"
  shows "(\<forall>v\<in>set (data g0). v = 0)
     \<and> (\<forall>v\<in>set (data g1). v = 0 \<or> v = 1)
     \<and> (\<forall>v\<in>set (data g2). v = 0 \<or> v = 1)
     \<and> shape g2 = shape g1 \<and> length (data g2) = length (data g1)
     \<and> (\<forall>n<length (data g1). data g1 ! n = 1 \<longrightarrow> data g2 ! n = 1)
     \<and> (\<forall>i j k c. in_bounds (shape g1) (i, j, k, c)
            \<and> getitem g1 (int i, int j, int k, int c) = Inr 1 \<longrightarrow>
           getitem g2 (int i, int j, int k, int c) = Inr 1)
     \<and> (\<forall>post g3. rasterize M bb g1 post = Inr g3 \<longrightarrow>
           (\<forall>v\<in>set (data g3). v = 0 \<or> v = 1)
         \<and> (\<forall>n<length (data g1). data g1 ! n = 1 \<longrightarrow> data g3 ! n = 1))"
proof -
  have wf0: "well_formed g0" and d0: "data g0 = replicate (cell_count (shape g0)) 0"
    using zero_grid_Inr[OF z] by simp_all
  have b0: "binary g0" using z by (rule zero_grid_binary)
  have b1: "binary g1" using b0 r by (rule rasterize_binary)
  have b2: "binary g2" using b1 s by (rule loop_body_binary)
  have sh1: "shape g1 = shape g0" "length (data g1) = length (data g0)"
    using rasterize_shape[OF r] by simp_all
  have sh2: "shape g2 = shape g1" "length (data g2) = length (data g1)"
    using loop_body_shape[OF s] by simp_all
  have wf1: "well_formed g1" using wf0 sh1 by (simp add: well_formed_def)
  have 1: "\<forall>v\<in>set (data g0). v = 0" by (subst d0) simp
  have 2: "\<forall>v\<in>set (data g1). v = 0 \<or> v = 1" using b1 by (simp add: binary_def list_all_iff)
  have 3: "\<forall>v\<in>set (data g2). v = 0 \<or> v = 1" using b2 by (simp add: binary_def list_all_iff)
  have 4: "\<forall>n<length (data g1). data g1 ! n = 1 \<longrightarrow> data g2 ! n = 1"
    using loop_body_keeps_ones[OF s] by blast
  have 5: "getitem g2 (int i, int j, int k, int c) = Inr 1"
    if "in_bounds (shape g1) (i, j, k, c)" "getitem g1 (int i, int j, int k, int c) = Inr 1"
    for i j k c
  proof -
    have "offset (shape g1) (i, j, k, c) < length (data g1)"
      using offset_less[OF that(1)] wf1 by (simp add: well_formed_def)
    moreover have "data g1 ! offset (shape g1) (i, j, k, c) = 1"
      using that by (simp add: getitem_int)
    ultimately have "data g2 ! offset (shape g1) (i, j, k, c) = 1"
      using 4 by blast
    then show ?thesis using that(1) by (simp add: getitem_int sh2)
  qed
  have 6: "(\<forall>v\<in>set (data g3). v = 0 \<or> v = 1)
         \<and> (\<forall>n<length (data g1). data g1 ! n = 1 \<longrightarrow> data g3 ! n = 1)"
    if "rasterize M bb g1 post = Inr g3" for post g3
    using rasterize_binary[OF b1 that] rasterize_keeps_ones[OF that]
    by (simp add: binary_def list_all_iff)
  show ?thesis using 1 2 3 4 5 6 sh2
    by (intro conjI allI impI) (simp_all del: split_paired_All)
qed

theorem occupancy_binary_monotone_witness:
  "zero_grid reference_platform (2, 2, 1) = Inr \<lparr>shape = (2, 2, 1, 4), data = replicate 16 0\<rparr>
   \<and> rasterize reference_platform ((0, 0, 0), (2, 2, 1)) \<lparr>shape = (2, 2, 1, 4), data = replicate 16 0\<rparr>
        [\<lparr>GetPosition = (0.2, 0.3, 0.1), GetSymbol = ''C''\<rparr>]
       = Inr \<lparr>shape = (2, 2, 1, 4), data = [1, 0, 0, 0,  0, 0, 0, 0,  0, 0, 0, 0,  0, 0, 0, 0]\<rparr>
   \<and> loop_body reference_platform ((0, 0, 0), (2, 2, 1))
        \<lparr>shape = (2, 2, 1, 4), data = [1, 0, 0, 0,  0, 0, 0, 0,  0, 0, 0, 0,  0, 0, 0, 0]\<rparr>
        \<lparr>GetPosition = (1.8, 1.1, 0.9), GetSymbol = ''N''\<rparr>
       = Inr \<lparr>shape = (2, 2, 1, 4), data = [1, 0, 0, 0,  0, 0, 0, 0,  0, 0, 0, 0,  0, 1, 0, 0]\<rparr>
   \<and> getitem \<lparr>shape = (2, 2, 1, 4), data = [1, 0, 0, 0,  0, 0, 0, 0,  0, 0, 0, 0,  0, 1, 0, 0]\<rparr>
        (int 0, int 0, int 0, int 0) = Inr 1"
proof -
  let ?b = "((0, 0, 0), (2, 2, 1)) :: vec3 \<times> vec3"
  let ?z = "\<lparr>shape = (2, 2, 1, 4), data = replicate 16 0\<rparr>"
  let ?g = "\<lparr>shape = (2, 2, 1, 4), data = [1, 0, 0, 0,  0, 0, 0, 0,  0, 0, 0, 0,  0, 0, 0, 0]\<rparr>"
  let ?h = "\<lparr>shape = (2, 2, 1, 4), data = [1, 0, 0, 0,  0, 0, 0, 0,  0, 0, 0, 0,  0, 1, 0, 0]\<rparr>"
  have z: "zero_grid reference_platform (2, 2, 1) = Inr ?z" by code_simp
  have r: "rasterize reference_platform ?b ?z [\<lparr>GetPosition = (0.2, 0.3, 0.1), GetSymbol = ''C''\<rparr>] = Inr ?g"
    by code_simp
  have s: "loop_body reference_platform ?b ?g \<lparr>GetPosition = (1.8, 1.1, 0.9), GetSymbol = ''N''\<rparr> = Inr ?h"
    by code_simp
  have i: "in_bounds (shape ?g) (0, 0, 0, 0)" by (simp add: in_bounds_def)
  have o: "getitem ?g (int 0, int 0, int 0, int 0) = Inr 1" by code_simp
  from occupancy_binary_monotone[OF z r s]
  have "\<forall>i j k c. in_bounds (shape ?g) (i, j, k, c)
            \<and> getitem ?g (int i, int j, int k, int c) = Inr 1 \<longrightarrow>
           getitem ?h (int i, int j, int k, int c) = Inr 1"
    by (elim conjE)
  with i o have "getitem ?h (int 0, int 0, int 0, int 0) = Inr 1" by blast
  with z r s show ?thesis by blast
qed

end
